theory Spec2Isabelle
  imports Main "HOL-Library.Char_ord" "HOL-Library.List_Lexorder"
begin

section \<open>The identity and playlist service of \<^verbatim>\<open>src/index.js\<close>\<close>

text \<open>
  The server keeps three tables (users, playlists, playlist_songs; schema at lines 28-50
  of \<^verbatim>\<open>index.js\<close>) and answers eight routes. Every route handler is embedded as a
  function from the request's inputs and the database to a response and the database
  afterwards. The handle \<^verbatim>\<open>db\<close> is read as a better-sqlite3 connection over the declared
  schema, which is what every \<^verbatim>\<open>db.prepare(...).run/get/all\<close> call of the routes
  expects; the array helpers \<^verbatim>\<open>findUserByEmail\<close> and \<^verbatim>\<open>createUser\<close> (lines 21-27) are
  called by no route and are not embedded.

  What the libraries do is written out where the routes depend on it:
  \<^item> \<^verbatim>\<open>jsonwebtoken\<close>: \<^verbatim>\<open>sign\<close> stamps \<^verbatim>\<open>iat = floor(Date.now() / 1000)\<close> and
    \<^verbatim>\<open>exp = iat + 604800\<close> for \<^verbatim>\<open>expiresIn: '7d'\<close>; \<^verbatim>\<open>verify\<close> throws on a string that
    is not a token, on a signature made with another secret, and when
    \<^verbatim>\<open>floor(Date.now() / 1000) >= exp\<close>. Tokens are symbolic: a signed token records
    the secret it was signed with.
  \<^item> \<^verbatim>\<open>bcrypt\<close>, SQLite's conversion of a text parameter compared with an INTEGER
    column, the text of \<^verbatim>\<open>CURRENT_TIMESTAMP\<close> and the \<^verbatim>\<open>foreign_keys\<close> pragma are
    parameters, collected in the record \<open>env\<close>.
  \<^item> A field of a JSON request body is a \<open>string option\<close>; \<open>None\<close> is a field the body
    does not have (\<^verbatim>\<open>undefined\<close>). \<^verbatim>\<open>bcrypt\<close> rejects it by throwing; a statement binds it
    as NULL, which equals no value of a column and violates NOT NULL.
  The clock \<open>now\<close> is \<^verbatim>\<open>Date.now()\<close>, in milliseconds. The \<^verbatim>\<open>catch\<close> branches that
  answer 500 (lines 145, 212, 235) are reached only when the storage itself fails, which
  the tables here never do.
\<close>

subsection \<open>JSON, tokens, responses\<close>

datatype json =
  JNull
  | JNum int
  | JStr string
  | JArr "json list"
  | JObj "(string \<times> json) list"

record jwt_payload =
  jwt_id :: int
  jwt_email :: string
  jwt_nombre :: string
  jwt_iat :: nat
  jwt_exp :: nat

text \<open>
  The value of the cookie \<^verbatim>\<open>token\<close>: a string that is no JSON Web Token, or a token
  with the secret that signed it and its payload.
\<close>

datatype token = Opaque string | Signed string jwt_payload

datatype jwt_error = JsonWebTokenError string | TokenExpiredError

datatype cookie_op = NoCookie | SetCookie token nat | ClearCookie

record response =
  status :: nat
  body :: json
  cookie :: cookie_op

text \<open>\<^verbatim>\<open>res.status(code).json({ message: text })\<close>\<close>

definition message :: "nat \<Rightarrow> string \<Rightarrow> response" where
  "message code txt =
     \<lparr>status = code, body = JObj [(''message'', JStr txt)], cookie = NoCookie\<rparr>"

text \<open>The UTF-8 bytes of the accented letters in the messages.\<close>

definition a_acute :: string where
  "a_acute = [CHR 0xC3, CHR 0xA1]"

definition o_acute :: string where
  "o_acute = [CHR 0xC3, CHR 0xB3]"

subsection \<open>The environment and the database\<close>

record env =
  JWT_SECRET :: string
  bcrypt_hash :: "string \<Rightarrow> string"
  bcrypt_compare :: "string \<Rightarrow> string \<Rightarrow> bool"
  numeric_affinity :: "string \<Rightarrow> int option"
  current_timestamp :: "nat \<Rightarrow> string"
  foreign_keys :: bool

record user_row =
  u_id :: int
  u_nombre :: string
  u_email :: string
  u_password :: string
  u_created_at :: string

record playlist_row =
  p_id :: int
  p_nombre :: string
  p_user_id :: int
  p_created_at :: string

record song_row =
  ps_playlist_id :: int
  ps_song_path :: string
  ps_added_at :: string

text \<open>
  The tables in insertion order, and the AUTOINCREMENT counters of users and playlists
  (the largest rowid each table has ever held).
\<close>

record db =
  users :: "user_row list"
  playlists :: "playlist_row list"
  playlist_songs :: "song_row list"
  users_seq :: int
  playlists_seq :: int

datatype sql_error = ConstraintNotNull | ConstraintUnique | ConstraintForeignKey | Full

text \<open>The constraints the schema declares, as predicates on a database.\<close>

definition users_email_unique :: "db \<Rightarrow> bool" where
  "users_email_unique d = distinct (map u_email (users d))"

definition playlists_pk :: "db \<Rightarrow> bool" where
  "playlists_pk d = distinct (map p_id (playlists d))"

definition playlist_songs_pk :: "db \<Rightarrow> bool" where
  "playlist_songs_pk d =
     distinct (map (\<lambda>r. (ps_playlist_id r, ps_song_path r)) (playlist_songs d))"

text \<open>
  AUTOINCREMENT: one more than the largest rowid the table holds or has held. A rowid
  is a signed 64-bit integer; once the largest one has been used the insert fails.
\<close>

definition next_rowid :: "int \<Rightarrow> int list \<Rightarrow> int option" where
  "next_rowid seq ids =
     (if fold max ids seq \<ge> 9223372036854775807 then None
      else Some (fold max ids seq + 1))"

subsection \<open>Session tokens (lines 10-11, 60-73, 104-114)\<close>

text \<open>\<^verbatim>\<open>JWT_EXPIRES = '7d'\<close>, which \<^verbatim>\<open>jsonwebtoken\<close> reads as a span in seconds.\<close>

definition JWT_EXPIRES :: nat where
  "JWT_EXPIRES = 7 * 24 * 60 * 60"

definition jwt_sign :: "string \<Rightarrow> nat \<Rightarrow> int \<Rightarrow> string \<Rightarrow> string \<Rightarrow> token" where
  "jwt_sign secret now uid email nombre =
     Signed secret
       \<lparr>jwt_id = uid, jwt_email = email, jwt_nombre = nombre,
        jwt_iat = now div 1000, jwt_exp = now div 1000 + JWT_EXPIRES\<rparr>"

definition jwt_verify :: "string \<Rightarrow> nat \<Rightarrow> token \<Rightarrow> jwt_error + jwt_payload" where
  "jwt_verify secret now tok =
     (case tok of
        Opaque s \<Rightarrow> Inl (JsonWebTokenError ''jwt malformed'')
      | Signed k p \<Rightarrow>
          if k \<noteq> secret then Inl (JsonWebTokenError ''invalid signature'')
          else if now div 1000 \<ge> jwt_exp p then Inl TokenExpiredError
          else Inr p)"

text \<open>
  \<^verbatim>\<open>authMiddleware\<close>: \<^verbatim>\<open>!token\<close> holds for a request without the cookie and for an
  empty cookie value; any exception of \<^verbatim>\<open>jwt.verify\<close> lands in the one \<^verbatim>\<open>catch\<close>.
  \<open>Inr\<close> is \<^verbatim>\<open>next()\<close> with \<^verbatim>\<open>req.user\<close> set.
\<close>

definition authMiddleware :: "env \<Rightarrow> nat \<Rightarrow> token option \<Rightarrow> response + jwt_payload" where
  "authMiddleware e now tok =
     (case tok of
        None \<Rightarrow> Inl (message 401 ''No autenticado'')
      | Some t \<Rightarrow>
          if t = Opaque [] then Inl (message 401 ''No autenticado'')
          else (case jwt_verify (JWT_SECRET e) now t of
                  Inl err \<Rightarrow> Inl (message 401 (''Token inv'' @ a_acute @ ''lido''))
                | Inr decoded \<Rightarrow> Inr decoded))"

text \<open>A route behind \<^verbatim>\<open>authMiddleware\<close>: the handler runs only after \<^verbatim>\<open>next()\<close>.\<close>

definition guarded ::
  "env \<Rightarrow> nat \<Rightarrow> token option \<Rightarrow> (jwt_payload \<Rightarrow> db \<Rightarrow> response \<times> db) \<Rightarrow> db \<Rightarrow> response \<times> db" where
  "guarded e now tok handler d =
     (case authMiddleware e now tok of
        Inl r \<Rightarrow> (r, d)
      | Inr user \<Rightarrow> handler user d)"

subsection \<open>Registration and login (lines 76-131)\<close>

text \<open>
  \<^verbatim>\<open>INSERT INTO users (nombre, email, password) VALUES (?, ?, ?)\<close>: \<^verbatim>\<open>nombre\<close> and
  \<^verbatim>\<open>email\<close> are NOT NULL, \<^verbatim>\<open>email\<close> is UNIQUE.
\<close>

definition insert_user ::
  "env \<Rightarrow> nat \<Rightarrow> string option \<Rightarrow> string option \<Rightarrow> string \<Rightarrow> db \<Rightarrow> sql_error + db" where
  "insert_user e now nombre email hashedPassword d =
     (case nombre of
        None \<Rightarrow> Inl ConstraintNotNull
      | Some n \<Rightarrow>
          (case email of
             None \<Rightarrow> Inl ConstraintNotNull
           | Some em \<Rightarrow>
               if list_ex (\<lambda>u. u_email u = em) (users d) then Inl ConstraintUnique
               else
                 (case next_rowid (users_seq d) (map u_id (users d)) of
                    None \<Rightarrow> Inl Full
                  | Some rowid \<Rightarrow>
                      Inr (d\<lparr>users := users d @
                                [\<lparr>u_id = rowid, u_nombre = n, u_email = em,
                                  u_password = hashedPassword,
                                  u_created_at = current_timestamp e now\<rparr>],
                              users_seq := rowid\<rparr>))))"

text \<open>\<^verbatim>\<open>POST /api/register\<close>: \<^verbatim>\<open>bcrypt.hash\<close> throws on a missing password.\<close>

definition post_api_register ::
  "env \<Rightarrow> nat \<Rightarrow> string option \<Rightarrow> string option \<Rightarrow> string option \<Rightarrow> db \<Rightarrow> response \<times> db" where
  "post_api_register e now nombre email password d =
     (case password of
        None \<Rightarrow> (message 400 ''Error al registrar usuario'', d)
      | Some pw \<Rightarrow>
          (case insert_user e now nombre email (bcrypt_hash e pw) d of
             Inl err \<Rightarrow> (message 400 ''Error al registrar usuario'', d)
           | Inr d' \<Rightarrow> (message 201 ''Usuario registrado exitosamente'', d')))"

text \<open>
  \<^verbatim>\<open>POST /api/login\<close>. \<^verbatim>\<open>.get(email)\<close> is the first row with that email or
  \<^verbatim>\<open>undefined\<close>; a missing email is NULL and finds no row. \<^verbatim>\<open>bcrypt.compare\<close>, called
  only after a row was found, throws on a missing password into the \<^verbatim>\<open>catch\<close>.
\<close>

definition post_api_login ::
  "env \<Rightarrow> nat \<Rightarrow> string option \<Rightarrow> string option \<Rightarrow> db \<Rightarrow> response \<times> db" where
  "post_api_login e now email password d =
     (case email of
        None \<Rightarrow> (message 400 (''Credenciales inv'' @ a_acute @ ''lidas''), d)
      | Some em \<Rightarrow>
          (case List.find (\<lambda>u. u_email u = em) (users d) of
             None \<Rightarrow> (message 400 (''Credenciales inv'' @ a_acute @ ''lidas''), d)
           | Some user \<Rightarrow>
               (case password of
                  None \<Rightarrow> (message 400 (''Error al iniciar sesi'' @ o_acute @ ''n''), d)
                | Some pw \<Rightarrow>
                    if \<not> bcrypt_compare e pw (u_password user)
                    then (message 400 (''Credenciales inv'' @ a_acute @ ''lidas''), d)
                    else
                      (\<lparr>status = 200,
                        body = JObj [(''user'',
                                 JObj [(''id'', JNum (u_id user)),
                                       (''email'', JStr (u_email user)),
                                       (''nombre'', JStr (u_nombre user))])],
                        cookie = SetCookie
                                   (jwt_sign (JWT_SECRET e) now
                                      (u_id user) (u_email user) (u_nombre user))
                                   (7 * 24 * 60 * 60 * 1000)\<rparr>, d))))"

text \<open>\<^verbatim>\<open>POST /api/logout\<close>\<close>

definition post_api_logout :: "db \<Rightarrow> response \<times> db" where
  "post_api_logout d =
     (\<lparr>status = 200,
       body = JObj [(''message'', JStr (''Sesi'' @ o_acute @ ''n cerrada''))],
       cookie = ClearCookie\<rparr>, d)"

subsection \<open>Playlists (lines 134-168)\<close>

text \<open>
  \<^verbatim>\<open>FROM playlists p LEFT JOIN playlist_songs ps ON p.id = ps.playlist_id\<close>: every
  playlist with each of its membership rows, or once with no row.
\<close>

type_synonym join_row = "playlist_row \<times> song_row option"

definition left_join :: "playlist_row list \<Rightarrow> song_row list \<Rightarrow> join_row list" where
  "left_join ps ss =
     concat (map (\<lambda>p. let m = filter (\<lambda>r. ps_playlist_id r = p_id p) ss
                        in if m = [] then [(p, None)] else map (\<lambda>r. (p, Some r)) m) ps)"

text \<open>\<^verbatim>\<open>COUNT(ps.song_path)\<close> counts the rows of a group whose song path is not NULL.\<close>

definition count_song_path :: "join_row list \<Rightarrow> nat" where
  "count_song_path rows = length (filter (\<lambda>jr. snd jr \<noteq> None) rows)"

text \<open>
  \<^verbatim>\<open>GROUP BY p.id\<close>: one output row for each distinct playlist id, carrying the columns
  of \<^verbatim>\<open>p\<close> and the count over the rows of that id.
\<close>

function group_by_id :: "join_row list \<Rightarrow> (playlist_row \<times> nat) list" where
  "group_by_id [] = []"
| "group_by_id (jr # rows) =
     (fst jr, count_song_path (jr # filter (\<lambda>x. p_id (fst x) = p_id (fst jr)) rows))
       # group_by_id (filter (\<lambda>x. p_id (fst x) \<noteq> p_id (fst jr)) rows)"
  by pat_completeness auto
termination
  by (relation "measure length") (auto simp: less_Suc_eq_le)

definition playlist_json :: "playlist_row \<times> nat \<Rightarrow> json" where
  "playlist_json pc =
     JObj [(''id'', JNum (p_id (fst pc))),
           (''nombre'', JStr (p_nombre (fst pc))),
           (''user_id'', JNum (p_user_id (fst pc))),
           (''created_at'', JStr (p_created_at (fst pc))),
           (''song_count'', JNum (int (snd pc)))]"

text \<open>\<^verbatim>\<open>GET /api/playlists\<close>, after the guard.\<close>

definition listPlaylists :: "jwt_payload \<Rightarrow> db \<Rightarrow> response \<times> db" where
  "listPlaylists user d =
     (\<lparr>status = 200,
       body = JObj [(''playlists'',
                JArr (map playlist_json
                  (group_by_id
                    (filter (\<lambda>jr. p_user_id (fst jr) = jwt_id user)
                      (left_join (playlists d) (playlist_songs d))))))],
       cookie = NoCookie\<rparr>, d)"

definition get_api_playlists :: "env \<Rightarrow> nat \<Rightarrow> token option \<Rightarrow> db \<Rightarrow> response \<times> db" where
  "get_api_playlists e now tok d = guarded e now tok listPlaylists d"

text \<open>
  \<^verbatim>\<open>INSERT INTO playlists (nombre, user_id) VALUES (?, ?)\<close>, returning
  \<^verbatim>\<open>lastInsertRowid\<close>; \<^verbatim>\<open>nombre\<close> is NOT NULL, and \<^verbatim>\<open>user_id\<close> references
  \<^verbatim>\<open>users(id)\<close>, which is checked when the \<^verbatim>\<open>foreign_keys\<close> pragma is on.
\<close>

definition insert_playlist ::
  "env \<Rightarrow> nat \<Rightarrow> string option \<Rightarrow> int \<Rightarrow> db \<Rightarrow> sql_error + (int \<times> db)" where
  "insert_playlist e now nombre uid d =
     (case nombre of
        None \<Rightarrow> Inl ConstraintNotNull
      | Some n \<Rightarrow>
          if foreign_keys e \<and> \<not> list_ex (\<lambda>u. u_id u = uid) (users d)
          then Inl ConstraintForeignKey
          else
            (case next_rowid (playlists_seq d) (map p_id (playlists d)) of
               None \<Rightarrow> Inl Full
             | Some rowid \<Rightarrow>
                 Inr (rowid,
                      d\<lparr>playlists := playlists d @
                           [\<lparr>p_id = rowid, p_nombre = n, p_user_id = uid,
                             p_created_at = current_timestamp e now\<rparr>],
                         playlists_seq := rowid\<rparr>)))"

text \<open>\<^verbatim>\<open>POST /api/playlists\<close>, after the guard.\<close>

definition createPlaylist ::
  "env \<Rightarrow> nat \<Rightarrow> string option \<Rightarrow> jwt_payload \<Rightarrow> db \<Rightarrow> response \<times> db" where
  "createPlaylist e now nombre user d =
     (case insert_playlist e now nombre (jwt_id user) d of
        Inl err \<Rightarrow> (message 400 ''Error al crear playlist'', d)
      | Inr res \<Rightarrow>
          (\<lparr>status = 201,
            body = JObj [(''playlist'',
                     JObj [(''id'', JNum (fst res)),
                           (''nombre'', (case nombre of None \<Rightarrow> JNull | Some n \<Rightarrow> JStr n)),
                           (''user_id'', JNum (jwt_id user)),
                           (''song_count'', JNum 0)])],
            cookie = NoCookie\<rparr>, snd res))"

definition post_api_playlists ::
  "env \<Rightarrow> nat \<Rightarrow> token option \<Rightarrow> string option \<Rightarrow> db \<Rightarrow> response \<times> db" where
  "post_api_playlists e now tok nombre d = guarded e now tok (createPlaylist e now nombre) d"

subsection \<open>Songs of a playlist (lines 170-238)\<close>

text \<open>
  \<^verbatim>\<open>SELECT * FROM playlists WHERE id = ? AND user_id = ?\<close> with the route parameter
  and \<^verbatim>\<open>req.user.id\<close>. The route parameter is text; compared with the INTEGER column
  it is read as a number where it is one, and equals no id where it is not.
\<close>

definition owned_playlist :: "env \<Rightarrow> db \<Rightarrow> string \<Rightarrow> int \<Rightarrow> playlist_row option" where
  "owned_playlist e d idp uid =
     (case numeric_affinity e idp of
        None \<Rightarrow> None
      | Some n \<Rightarrow> List.find (\<lambda>p. p_id p = n \<and> p_user_id p = uid) (playlists d))"

text \<open>
  \<^verbatim>\<open>INSERT OR IGNORE INTO playlist_songs (playlist_id, song_path) VALUES (?, ?)\<close>. The
  statements below the ownership check bind the same route parameter, so the integer
  they see is the id of the playlist the check has just matched, here \<open>pid\<close>. OR IGNORE
  skips the row, without an error, when the pair is already there and when the song
  path is NULL (\<^verbatim>\<open>song_path\<close> is NOT NULL).
\<close>

definition insert_or_ignore_song ::
  "env \<Rightarrow> nat \<Rightarrow> int \<Rightarrow> string option \<Rightarrow> db \<Rightarrow> sql_error + db" where
  "insert_or_ignore_song e now pid songPath d =
     (case songPath of
        None \<Rightarrow> Inr d
      | Some s \<Rightarrow>
          if list_ex (\<lambda>r. ps_playlist_id r = pid \<and> ps_song_path r = s) (playlist_songs d)
          then Inr d
          else Inr (d\<lparr>playlist_songs := playlist_songs d @
                         [\<lparr>ps_playlist_id = pid, ps_song_path = s,
                           ps_added_at = current_timestamp e now\<rparr>]\<rparr>))"

definition not_found :: response where
  "not_found = message 404 ''Playlist no encontrada''"

text \<open>\<^verbatim>\<open>POST /api/playlists/:id/songs\<close>, after the guard.\<close>

definition addSong ::
  "env \<Rightarrow> nat \<Rightarrow> string \<Rightarrow> string option \<Rightarrow> jwt_payload \<Rightarrow> db \<Rightarrow> response \<times> db" where
  "addSong e now idp songPath user d =
     (case owned_playlist e d idp (jwt_id user) of
        None \<Rightarrow> (not_found, d)
      | Some playlist \<Rightarrow>
          (case insert_or_ignore_song e now (p_id playlist) songPath d of
             Inl err \<Rightarrow> (message 400 (''Error al agregar canci'' @ o_acute @ ''n''), d)
           | Inr d' \<Rightarrow> (message 201 (''Canci'' @ o_acute @ ''n agregada''), d')))"

definition post_api_playlists_id_songs ::
  "env \<Rightarrow> nat \<Rightarrow> token option \<Rightarrow> string \<Rightarrow> string option \<Rightarrow> db \<Rightarrow> response \<times> db" where
  "post_api_playlists_id_songs e now tok idp songPath d =
     guarded e now tok (addSong e now idp songPath) d"

text \<open>
  \<^verbatim>\<open>GET /api/playlists/:id/songs\<close>, after the guard.
  \<^verbatim>\<open>SELECT song_path FROM playlist_songs WHERE playlist_id = ?\<close> is answered from the index
  of the primary key \<^verbatim>\<open>(playlist_id, song_path)\<close>, so the paths come in the byte order of
  the strings.
\<close>

definition listSongs :: "env \<Rightarrow> string \<Rightarrow> jwt_payload \<Rightarrow> db \<Rightarrow> response \<times> db" where
  "listSongs e idp user d =
     (case owned_playlist e d idp (jwt_id user) of
        None \<Rightarrow> (not_found, d)
      | Some playlist \<Rightarrow>
          (\<lparr>status = 200,
            body = JObj [(''songs'',
                     JArr (map JStr
                       (sort (map ps_song_path
                         (filter (\<lambda>r. ps_playlist_id r = p_id playlist)
                           (playlist_songs d))))))],
            cookie = NoCookie\<rparr>, d))"

definition get_api_playlists_id_songs ::
  "env \<Rightarrow> nat \<Rightarrow> token option \<Rightarrow> string \<Rightarrow> db \<Rightarrow> response \<times> db" where
  "get_api_playlists_id_songs e now tok idp d = guarded e now tok (listSongs e idp) d"

text \<open>
  \<^verbatim>\<open>DELETE /api/playlists/:playlistId/songs/:songPath\<close>, after the guard; both
  parameters are path segments, so the song path is always a string.
\<close>

definition removeSong :: "env \<Rightarrow> string \<Rightarrow> string \<Rightarrow> jwt_payload \<Rightarrow> db \<Rightarrow> response \<times> db" where
  "removeSong e playlistId songPath user d =
     (case owned_playlist e d playlistId (jwt_id user) of
        None \<Rightarrow> (not_found, d)
      | Some playlist \<Rightarrow>
          (message 200 (''Canci'' @ o_acute @ ''n eliminada''),
           d\<lparr>playlist_songs :=
                filter (\<lambda>r. \<not> (ps_playlist_id r = p_id playlist \<and> ps_song_path r = songPath))
                  (playlist_songs d)\<rparr>))"

definition delete_api_playlists_songs ::
  "env \<Rightarrow> nat \<Rightarrow> token option \<Rightarrow> string \<Rightarrow> string \<Rightarrow> db \<Rightarrow> response \<times> db" where
  "delete_api_playlists_songs e now tok playlistId songPath d =
     guarded e now tok (removeSong e playlistId songPath) d"

subsection \<open>Concrete inputs\<close>

text \<open>
  An environment with the development secret of line 10, a transparent stand-in for
  \<^verbatim>\<open>bcrypt\<close>, and a database with two users, one playlist of the first user and one
  song in it.
\<close>

definition env0 :: env where
  "env0 =
     \<lparr>JWT_SECRET = ''dev_secret_change_me'',
      bcrypt_hash = (\<lambda>pw. ''$2b$10$'' @ pw),
      bcrypt_compare = (\<lambda>pw h. h = ''$2b$10$'' @ pw),
      numeric_affinity = map_of [(''1'', 1), (''2'', 2), (''3'', 3)],
      current_timestamp = (\<lambda>t. ''2025-01-01 00:00:00''),
      foreign_keys = True\<rparr>"

definition ana :: user_row where
  "ana = \<lparr>u_id = 1, u_nombre = ''Ana'', u_email = ''ana@x.com'',
          u_password = ''$2b$10$pw1'', u_created_at = ''2025-01-01 00:00:00''\<rparr>"

definition bob :: user_row where
  "bob = \<lparr>u_id = 2, u_nombre = ''Bob'', u_email = ''bob@x.com'',
          u_password = ''$2b$10$pw2'', u_created_at = ''2025-01-01 00:00:00''\<rparr>"

definition road_trip :: playlist_row where
  "road_trip = \<lparr>p_id = 1, p_nombre = ''Road Trip'', p_user_id = 1,
                p_created_at = ''2025-01-01 00:00:00''\<rparr>"

definition a_mp3 :: song_row where
  "a_mp3 = \<lparr>ps_playlist_id = 1, ps_song_path = ''/musica/a.mp3'',
            ps_added_at = ''2025-01-01 00:00:00''\<rparr>"

definition db0 :: db where
  "db0 = \<lparr>users = [ana, bob], playlists = [road_trip], playlist_songs = [a_mp3],
          users_seq = 2, playlists_seq = 1\<rparr>"

definition ana_token :: token where
  "ana_token = jwt_sign ''dev_secret_change_me'' 0 1 ''ana@x.com'' ''Ana''"

definition bob_token :: token where
  "bob_token = jwt_sign ''dev_secret_change_me'' 0 2 ''bob@x.com'' ''Bob''"

definition db_empty :: db where
  "db_empty =
     \<lparr>users = [], playlists = [], playlist_songs = [], users_seq = 0, playlists_seq = 0\<rparr>"

section \<open>Properties\<close>

subsection \<open>The gate and the ownership lookup\<close>

lemma owned_playlist_None_iff:
  "owned_playlist e d idp uid = None \<longleftrightarrow>
     (\<forall>n. numeric_affinity e idp = Some n \<longrightarrow>
        \<not> list_ex (\<lambda>p. p_id p = n \<and> p_user_id p = uid) (playlists d))"
  by (auto simp: owned_playlist_def find_None_iff list_ex_iff split: option.splits)

lemma bob_auth:
  "authMiddleware env0 1000 (Some bob_token) =
     Inr \<lparr>jwt_id = 2, jwt_email = ''bob@x.com'', jwt_nombre = ''Bob'',
          jwt_iat = 0, jwt_exp = 604800\<rparr>"
  by (simp add: authMiddleware_def env0_def bob_token_def jwt_sign_def jwt_verify_def
      JWT_EXPIRES_def)

lemma ana_auth:
  "authMiddleware env0 1000 (Some ana_token) =
     Inr \<lparr>jwt_id = 1, jwt_email = ''ana@x.com'', jwt_nombre = ''Ana'',
          jwt_iat = 0, jwt_exp = 604800\<rparr>"
  by (simp add: authMiddleware_def env0_def ana_token_def jwt_sign_def jwt_verify_def
      JWT_EXPIRES_def)

text \<open>
  C1. An authenticated caller for whom the ownership lookup finds no playlist (the id
  belongs to another owner, to no playlist, or is no number) gets from addSong,
  listSongs and removeSong the same response, 404 with the message
  "Playlist no encontrada", and the database is not changed. The response is a
  constant, so it cannot tell the cases apart.
\<close>

theorem playlist_scoped_not_found:
  assumes "authMiddleware e now tok = Inr user"
    and "owned_playlist e d idp (jwt_id user) = None"
  shows "post_api_playlists_id_songs e now tok idp songPath d = (not_found, d)
       \<and> get_api_playlists_id_songs e now tok idp d = (not_found, d)
       \<and> delete_api_playlists_songs e now tok idp path d = (not_found, d)
       \<and> not_found = \<lparr>status = 404,
            body = JObj [(''message'', JStr ''Playlist no encontrada'')],
            cookie = NoCookie\<rparr>"
  using assms
  by (simp add: post_api_playlists_id_songs_def get_api_playlists_id_songs_def
      delete_api_playlists_songs_def guarded_def addSong_def listSongs_def removeSong_def
      not_found_def message_def)

text \<open>
  Bob on Ana's playlist 1, on the id 3 of no playlist and on the id "abc": the three
  operations answer alike.
\<close>

theorem playlist_scoped_not_found_witness:
  "post_api_playlists_id_songs env0 1000 (Some bob_token) ''1'' (Some ''b.mp3'') db0
     = post_api_playlists_id_songs env0 1000 (Some bob_token) ''3'' (Some ''b.mp3'') db0
   \<and> get_api_playlists_id_songs env0 1000 (Some bob_token) ''1'' db0
     = get_api_playlists_id_songs env0 1000 (Some bob_token) ''3'' db0
   \<and> delete_api_playlists_songs env0 1000 (Some bob_token) ''1'' ''/musica/a.mp3'' db0
     = delete_api_playlists_songs env0 1000 (Some bob_token) ''abc'' ''/musica/a.mp3'' db0
   \<and> post_api_playlists_id_songs env0 1000 (Some bob_token) ''1'' (Some ''b.mp3'') db0
     = (not_found, db0)
   \<and> list_ex (\<lambda>p. p_id p = 1) (playlists db0)
   \<and> \<not> list_ex (\<lambda>p. p_id p = 3) (playlists db0)"
proof -
  have o1: "owned_playlist env0 db0 ''1'' 2 = None"
    by (simp add: owned_playlist_def env0_def db0_def road_trip_def)
  have o3: "owned_playlist env0 db0 ''3'' 2 = None"
    by (simp add: owned_playlist_def env0_def db0_def road_trip_def)
  have oa: "owned_playlist env0 db0 ''abc'' 2 = None"
    by (simp add: owned_playlist_def env0_def db0_def road_trip_def)
  have ex: "list_ex (\<lambda>p. p_id p = 1) (playlists db0)
      \<and> \<not> list_ex (\<lambda>p. p_id p = 3) (playlists db0)"
    by (simp add: db0_def road_trip_def)
  show ?thesis
    using playlist_scoped_not_found [OF bob_auth, of db0 "''1''"]
      playlist_scoped_not_found [OF bob_auth, of db0 "''3''"]
      playlist_scoped_not_found [OF bob_auth, of db0 "''abc''"] o1 o3 oa ex
    by simp
qed

subsection \<open>Registration and login\<close>

text \<open>
  C2. When a user with the email already exists, registering that email again answers
  400 (with the generic message of the \<^verbatim>\<open>catch\<close>) and leaves the whole database, and
  so the first user's name, email and password hash, as it was.
\<close>

theorem register_duplicate_email:
  assumes "list_ex (\<lambda>u. u_email u = em) (users d)"
  shows "post_api_register e now nombre (Some em) password d
           = (message 400 ''Error al registrar usuario'', d)
       \<and> status (fst (post_api_register e now nombre (Some em) password d)) = 400
       \<and> users (snd (post_api_register e now nombre (Some em) password d)) = users d"
  using assms
  by (simp add: post_api_register_def insert_user_def message_def split: option.splits)

text \<open>Ana registers on the empty database; Eve then tries Ana's email.\<close>

theorem register_duplicate_email_witness:
  "post_api_register env0 0 (Some ''Ana'') (Some ''ana@x.com'') (Some ''pw1'') db_empty
     = (message 201 ''Usuario registrado exitosamente'',
        \<lparr>users = [ana], playlists = [], playlist_songs = [], users_seq = 1, playlists_seq = 0\<rparr>)
   \<and> post_api_register env0 5000 (Some ''Eve'') (Some ''ana@x.com'') (Some ''pw2'')
        \<lparr>users = [ana], playlists = [], playlist_songs = [], users_seq = 1, playlists_seq = 0\<rparr>
     = (message 400 ''Error al registrar usuario'',
        \<lparr>users = [ana], playlists = [], playlist_songs = [], users_seq = 1, playlists_seq = 0\<rparr>)"
proof -
  let ?d1 = "\<lparr>users = [ana], playlists = [], playlist_songs = [], users_seq = 1, playlists_seq = 0\<rparr>"
  have first: "post_api_register env0 0 (Some ''Ana'') (Some ''ana@x.com'') (Some ''pw1'') db_empty
     = (message 201 ''Usuario registrado exitosamente'', ?d1)"
    by (simp add: post_api_register_def insert_user_def db_empty_def env0_def ana_def
        next_rowid_def)
  have dup: "list_ex (\<lambda>u. u_email u = ''ana@x.com'') (users ?d1)"
    by (simp add: ana_def)
  show ?thesis
    using first register_duplicate_email [OF dup, of env0 5000 "Some ''Eve''" "Some ''pw2''"]
    by simp
qed

text \<open>
  With a password given: a login with the email of a registered user and a password
  that \<^verbatim>\<open>bcrypt.compare\<close> rejects gets the same response, 400 with
  "Credenciales invalidas", as a login with an email of no user (lines 96 and 101).
\<close>

theorem login_failures_alike:
  assumes "List.find (\<lambda>u. u_email u = em1) (users d) = Some u"
    and "\<not> bcrypt_compare e pw1 (u_password u)"
    and "List.find (\<lambda>u. u_email u = em2) (users d) = None"
  shows "post_api_login e t1 (Some em1) (Some pw1) d = post_api_login e t2 (Some em2) pw2 d
       \<and> post_api_login e t1 (Some em1) (Some pw1) d
           = (message 400 (''Credenciales inv'' @ a_acute @ ''lidas''), d)"
  using assms by (simp add: post_api_login_def)

text \<open>Ana's email with a wrong password, and an unknown email.\<close>

theorem login_failures_alike_witness:
  "post_api_login env0 0 (Some ''ana@x.com'') (Some ''wrong'') db0
     = post_api_login env0 0 (Some ''nobody@x.com'') (Some ''wrong'') db0
   \<and> post_api_login env0 0 (Some ''ana@x.com'') (Some ''wrong'') db0
     = (message 400 (''Credenciales inv'' @ a_acute @ ''lidas''), db0)
   \<and> status (fst (post_api_login env0 0 (Some ''ana@x.com'') (Some ''pw1'') db0)) = 200"
proof -
  have f1: "List.find (\<lambda>u. u_email u = ''ana@x.com'') (users db0) = Some ana"
    by (simp add: db0_def ana_def bob_def)
  have w: "\<not> bcrypt_compare env0 ''wrong'' (u_password ana)"
    by (simp add: env0_def ana_def)
  have f2: "List.find (\<lambda>u. u_email u = ''nobody@x.com'') (users db0) = None"
    by (simp add: db0_def ana_def bob_def)
  have ok: "status (fst (post_api_login env0 0 (Some ''ana@x.com'') (Some ''pw1'') db0)) = 200"
    by (simp add: post_api_login_def f1) (simp add: env0_def ana_def)
  show ?thesis
    using login_failures_alike [OF f1 w f2, of 0 0 "Some ''wrong''"] ok by blast
qed

text \<open>
  Without a password: the body reaches \<^verbatim>\<open>bcrypt.compare\<close> only when the email is
  registered (line 95 returns before it otherwise), and there the \<^verbatim>\<open>catch\<close> of line 123
  answers with its own message.
\<close>

lemma login_missing_password:
  assumes "List.find (\<lambda>u. u_email u = em1) (users d) = Some u"
    and "List.find (\<lambda>u. u_email u = em2) (users d) = None"
  shows "post_api_login e now (Some em1) None d
           = (message 400 (''Error al iniciar sesi'' @ o_acute @ ''n''), d)"
    and "post_api_login e now (Some em2) None d
           = (message 400 (''Credenciales inv'' @ a_acute @ ''lidas''), d)"
  using assms by (simp_all add: post_api_login_def)

text \<open>
  C7. The failure response of a login must not tell whether the email is registered.
  The code answers alike on the two paths above, but not for a body without a password
  field: on the concrete database, Ana's registered email gets 400 with
  "Error al iniciar sesion" and an unknown email gets 400 with "Credenciales invalidas",
  so the two failure responses differ and show which email has an account.
\<close>

theorem login_missing_password_leak:
  "post_api_login env0 0 (Some ''ana@x.com'') None db0
     = (message 400 (''Error al iniciar sesi'' @ o_acute @ ''n''), db0)
   \<and> post_api_login env0 0 (Some ''nobody@x.com'') None db0
     = (message 400 (''Credenciales inv'' @ a_acute @ ''lidas''), db0)
   \<and> post_api_login env0 0 (Some ''ana@x.com'') None db0
     \<noteq> post_api_login env0 0 (Some ''nobody@x.com'') None db0
   \<and> list_ex (\<lambda>u. u_email u = ''ana@x.com'') (users db0)
   \<and> \<not> list_ex (\<lambda>u. u_email u = ''nobody@x.com'') (users db0)"
  by (simp add: post_api_login_def db0_def ana_def bob_def message_def)

text \<open>
  C10. The body of a successful login is the object \<^verbatim>\<open>{user: {id, email, nombre}}\<close>
  built from the id, the email and the name of the user found by the email; no other
  field, and nothing of the stored password, is in it.
\<close>

theorem login_body_fields:
  assumes "status (fst (post_api_login e now email password d)) = 200"
  shows "\<exists>em u. email = Some em
           \<and> List.find (\<lambda>u. u_email u = em) (users d) = Some u
           \<and> body (fst (post_api_login e now email password d))
               = JObj [(''user'',
                   JObj [(''id'', JNum (u_id u)),
                         (''email'', JStr (u_email u)),
                         (''nombre'', JStr (u_nombre u))])]"
  using assms
  by (auto simp: post_api_login_def message_def split: option.splits if_splits)

text \<open>Ana logs in with her password.\<close>

theorem login_body_fields_witness:
  "status (fst (post_api_login env0 0 (Some ''ana@x.com'') (Some ''pw1'') db0)) = 200
   \<and> body (fst (post_api_login env0 0 (Some ''ana@x.com'') (Some ''pw1'') db0))
       = JObj [(''user'',
           JObj [(''id'', JNum 1), (''email'', JStr ''ana@x.com''), (''nombre'', JStr ''Ana'')])]"
proof -
  have f1: "List.find (\<lambda>u. u_email u = ''ana@x.com'') (users db0) = Some ana"
    by (simp add: db0_def ana_def bob_def)
  have ok: "status (fst (post_api_login env0 0 (Some ''ana@x.com'') (Some ''pw1'') db0)) = 200"
    by (simp add: post_api_login_def f1) (simp add: env0_def ana_def)
  from login_body_fields [OF ok] f1 ok show ?thesis
    by (auto simp: ana_def)
qed

subsection \<open>Session tokens\<close>

text \<open>
  C5, as the code has it. A token issued at \<open>T\<close> (milliseconds) is accepted at \<open>t\<close> exactly
  when \<open>t div 1000 < T div 1000 + 604800\<close>, and is rejected as expired otherwise: the
  expiry is counted in whole seconds from the second of issue. So the gate accepts it up
  to one second before \<open>T\<close> plus 7 days and rejects it from \<open>T\<close> plus 7 days on; it is
  accepted at \<open>T\<close> plus 6 days and rejected at \<open>T\<close> plus 8 days.
\<close>

theorem token_lifetime:
  "(jwt_verify secret t (jwt_sign secret T uid em nm)
      = Inr \<lparr>jwt_id = uid, jwt_email = em, jwt_nombre = nm,
             jwt_iat = T div 1000, jwt_exp = T div 1000 + 604800\<rparr>)
     = (t div 1000 < T div 1000 + 604800)
   \<and> (jwt_verify secret t (jwt_sign secret T uid em nm) = Inl TokenExpiredError)
     = (T div 1000 + 604800 \<le> t div 1000)
   \<and> (t + 1000 \<le> T + 604800000 \<longrightarrow>
        authMiddleware e t (Some (jwt_sign (JWT_SECRET e) T uid em nm))
          = Inr \<lparr>jwt_id = uid, jwt_email = em, jwt_nombre = nm,
                 jwt_iat = T div 1000, jwt_exp = T div 1000 + 604800\<rparr>)
   \<and> (T + 604800000 \<le> t \<longrightarrow>
        authMiddleware e t (Some (jwt_sign (JWT_SECRET e) T uid em nm))
          = Inl (message 401 (''Token inv'' @ a_acute @ ''lido'')))
   \<and> jwt_verify secret (T + 6 * 86400000) (jwt_sign secret T uid em nm)
       = Inr \<lparr>jwt_id = uid, jwt_email = em, jwt_nombre = nm,
              jwt_iat = T div 1000, jwt_exp = T div 1000 + 604800\<rparr>
   \<and> jwt_verify secret (T + 8 * 86400000) (jwt_sign secret T uid em nm)
       = Inl TokenExpiredError"
proof -
  have m: "(n + 1000) div 1000 = n div 1000 + 1" for n :: nat
    using div_mult_self1 [of "1000::nat" n 1] by simp
  have w: "(n + 604800000) div 1000 = n div 1000 + 604800" for n :: nat
    using div_mult_self1 [of "1000::nat" n 604800] by simp
  have a: "t div 1000 < T div 1000 + 604800" if "t + 1000 \<le> T + 604800000"
    using div_le_mono [OF that, of 1000] by (simp only: m w)
  have b: "T div 1000 + 604800 \<le> t div 1000" if "T + 604800000 \<le> t"
    using div_le_mono [OF that, of 1000] by (simp only: w)
  have c: "(T + 6 * 86400000) div 1000 < T div 1000 + 604800"
    using div_mult_self1 [of "1000::nat" T 518400] by simp
  have d: "T div 1000 + 604800 \<le> (T + 8 * 86400000) div 1000"
    using div_mult_self1 [of "1000::nat" T 691200] by simp
  let ?p = "\<lparr>jwt_id = uid, jwt_email = em, jwt_nombre = nm,
             jwt_iat = T div 1000, jwt_exp = T div 1000 + 604800\<rparr>"
  have c1: "(jwt_verify secret t (jwt_sign secret T uid em nm) = Inr ?p)
      = (t div 1000 < T div 1000 + 604800)"
    by (simp add: jwt_verify_def jwt_sign_def JWT_EXPIRES_def not_less)
  have c2: "(jwt_verify secret t (jwt_sign secret T uid em nm) = Inl TokenExpiredError)
      = (T div 1000 + 604800 \<le> t div 1000)"
    by (simp add: jwt_verify_def jwt_sign_def JWT_EXPIRES_def)
  have c3: "t + 1000 \<le> T + 604800000 \<longrightarrow>
        authMiddleware e t (Some (jwt_sign (JWT_SECRET e) T uid em nm)) = Inr ?p"
  proof
    assume "t + 1000 \<le> T + 604800000"
    from a [OF this] show
      "authMiddleware e t (Some (jwt_sign (JWT_SECRET e) T uid em nm)) = Inr ?p"
      by (simp add: authMiddleware_def jwt_verify_def jwt_sign_def JWT_EXPIRES_def)
  qed
  have c4: "T + 604800000 \<le> t \<longrightarrow>
        authMiddleware e t (Some (jwt_sign (JWT_SECRET e) T uid em nm))
          = Inl (message 401 (''Token inv'' @ a_acute @ ''lido''))"
  proof
    assume "T + 604800000 \<le> t"
    from b [OF this] show
      "authMiddleware e t (Some (jwt_sign (JWT_SECRET e) T uid em nm))
          = Inl (message 401 (''Token inv'' @ a_acute @ ''lido''))"
      by (simp add: authMiddleware_def jwt_verify_def jwt_sign_def JWT_EXPIRES_def)
  qed
  have c5: "jwt_verify secret (T + 6 * 86400000) (jwt_sign secret T uid em nm) = Inr ?p"
    using c by (simp add: jwt_verify_def jwt_sign_def JWT_EXPIRES_def)
  have c6: "jwt_verify secret (T + 8 * 86400000) (jwt_sign secret T uid em nm)
      = Inl TokenExpiredError"
    using d by (simp add: jwt_verify_def jwt_sign_def JWT_EXPIRES_def)
  from c1 c2 c3 c4 c5 c6 show ?thesis
    by blast
qed

text \<open>
  A token issued at 0 checked after 6 and after 8 days, and a token issued at 999 ms
  checked one second before and exactly at 7 days after its issue.
\<close>

theorem token_lifetime_witness:
  "jwt_verify ''k'' 518400000 (jwt_sign ''k'' 0 1 ''ana@x.com'' ''Ana'')
     = Inr \<lparr>jwt_id = 1, jwt_email = ''ana@x.com'', jwt_nombre = ''Ana'',
            jwt_iat = 0, jwt_exp = 604800\<rparr>
   \<and> jwt_verify ''k'' 691200000 (jwt_sign ''k'' 0 1 ''ana@x.com'' ''Ana'') = Inl TokenExpiredError
   \<and> authMiddleware env0 604799999 (Some (jwt_sign (JWT_SECRET env0) 999 1 ''ana@x.com'' ''Ana''))
       = Inr \<lparr>jwt_id = 1, jwt_email = ''ana@x.com'', jwt_nombre = ''Ana'',
              jwt_iat = 0, jwt_exp = 604800\<rparr>
   \<and> authMiddleware env0 604800999 (Some (jwt_sign (JWT_SECRET env0) 999 1 ''ana@x.com'' ''Ana''))
       = Inl (message 401 (''Token inv'' @ a_acute @ ''lido''))"
  using token_lifetime [of "''k''" 0 0 1 "''ana@x.com''" "''Ana''" env0]
    token_lifetime [of "''k''" 604799999 999 1 "''ana@x.com''" "''Ana''" env0]
    token_lifetime [of "''k''" 604800999 999 1 "''ana@x.com''" "''Ana''" env0]
  by simp

text \<open>
  C5 as stated fails: a token issued at 999 ms is already rejected at 604800000 ms,
  which is less than 7 days after its issue, and a token issued at 0 is rejected at
  exactly 7 days.
\<close>

theorem token_lifetime_counterexample:
  "(604800000::nat) < 999 + 7 * 24 * 60 * 60 * 1000
   \<and> jwt_verify ''k'' 604800000 (jwt_sign ''k'' 999 1 ''ana@x.com'' ''Ana'') = Inl TokenExpiredError
   \<and> jwt_verify ''k'' (0 + 7 * 24 * 60 * 60 * 1000) (jwt_sign ''k'' 0 1 ''ana@x.com'' ''Ana'')
       = Inl TokenExpiredError"
  by (simp add: jwt_verify_def jwt_sign_def JWT_EXPIRES_def)

text \<open>
  C6, as the code has it. Every failure of the gate is a 401 with a JSON message. A
  request without the cookie (or with an empty one) is answered "No autenticado"; a
  malformed, a mis-signed and an expired token are all answered "Token invalido". The
  two messages differ, so the client can tell a missing token from a rejected one, but
  not why a token was rejected.
\<close>

theorem auth_failure_responses:
  "authMiddleware e now None = Inl (message 401 ''No autenticado'')
   \<and> authMiddleware e now (Some (Opaque [])) = Inl (message 401 ''No autenticado'')
   \<and> (s \<noteq> [] \<longrightarrow>
        authMiddleware e now (Some (Opaque s))
          = Inl (message 401 (''Token inv'' @ a_acute @ ''lido'')))
   \<and> (k \<noteq> JWT_SECRET e \<longrightarrow>
        authMiddleware e now (Some (Signed k p))
          = Inl (message 401 (''Token inv'' @ a_acute @ ''lido'')))
   \<and> (jwt_exp p \<le> now div 1000 \<longrightarrow>
        authMiddleware e now (Some (Signed (JWT_SECRET e) p))
          = Inl (message 401 (''Token inv'' @ a_acute @ ''lido'')))
   \<and> (\<forall>r. authMiddleware e now tok = Inl r \<longrightarrow>
        status r = 401
        \<and> (r = message 401 ''No autenticado''
           \<or> r = message 401 (''Token inv'' @ a_acute @ ''lido'')))
   \<and> message 401 ''No autenticado'' \<noteq> message 401 (''Token inv'' @ a_acute @ ''lido'')"
  by (auto simp: authMiddleware_def jwt_verify_def message_def
      split: option.splits token.splits sum.splits if_splits)

text \<open>No cookie, a malformed token, a token signed with another secret, an expired token.\<close>

theorem auth_failure_responses_witness:
  "authMiddleware env0 0 None = Inl (message 401 ''No autenticado'')
   \<and> authMiddleware env0 0 (Some (Opaque ''abc''))
       = Inl (message 401 (''Token inv'' @ a_acute @ ''lido''))
   \<and> authMiddleware env0 0 (Some (Signed ''other_secret'' \<lparr>jwt_id = 1, jwt_email = ''ana@x.com'',
         jwt_nombre = ''Ana'', jwt_iat = 0, jwt_exp = 604800\<rparr>))
       = Inl (message 401 (''Token inv'' @ a_acute @ ''lido''))
   \<and> authMiddleware env0 700000000000 (Some ana_token)
       = Inl (message 401 (''Token inv'' @ a_acute @ ''lido''))"
proof -
  have s: "''abc'' \<noteq> []" by simp
  have k: "''other_secret'' \<noteq> JWT_SECRET env0" by (simp add: env0_def)
  have x: "jwt_exp \<lparr>jwt_id = 1, jwt_email = ''ana@x.com'', jwt_nombre = ''Ana'',
      jwt_iat = 0, jwt_exp = 604800\<rparr> \<le> 700000000000 div 1000" by simp
  have t: "ana_token = Signed (JWT_SECRET env0) \<lparr>jwt_id = 1, jwt_email = ''ana@x.com'',
      jwt_nombre = ''Ana'', jwt_iat = 0, jwt_exp = 604800\<rparr>"
    by (simp add: ana_token_def jwt_sign_def env0_def JWT_EXPIRES_def)
  show ?thesis
    using auth_failure_responses [of env0 0 "''abc''" "''other_secret''"
        "\<lparr>jwt_id = 1, jwt_email = ''ana@x.com'', jwt_nombre = ''Ana'', jwt_iat = 0, jwt_exp = 604800\<rparr>"]
      auth_failure_responses [of env0 700000000000 "''abc''" "''other_secret''"
        "\<lparr>jwt_id = 1, jwt_email = ''ana@x.com'', jwt_nombre = ''Ana'', jwt_iat = 0, jwt_exp = 604800\<rparr>"]
      s k x t
    by metis
qed

text \<open>
  C6 as stated fails: the response to a missing token is not the response to a
  malformed one.
\<close>

theorem auth_failure_counterexample:
  "authMiddleware env0 0 None \<noteq> authMiddleware env0 0 (Some (Opaque ''abc''))
   \<and> authMiddleware env0 0 None = Inl (message 401 ''No autenticado'')
   \<and> authMiddleware env0 0 (Some (Opaque ''abc''))
       = Inl (message 401 (''Token inv'' @ a_acute @ ''lido''))"
  by (simp add: authMiddleware_def jwt_verify_def message_def)

subsection \<open>Songs of a playlist\<close>

text \<open>
  C4. For an authenticated caller, removeSong answers 200 whenever the ownership lookup
  finds the playlist, whether or not the membership exists; when it does not exist the
  database is unchanged. The answer is the 404 response exactly when the lookup finds
  no playlist.
\<close>

theorem removeSong_success:
  assumes "authMiddleware e now tok = Inr user"
  shows "(owned_playlist e d pid (jwt_id user) \<noteq> None \<longrightarrow>
            fst (delete_api_playlists_songs e now tok pid path d)
              = message 200 (''Canci'' @ o_acute @ ''n eliminada''))
       \<and> (fst (delete_api_playlists_songs e now tok pid path d) = not_found)
           = (owned_playlist e d pid (jwt_id user) = None)
       \<and> (\<forall>pl. owned_playlist e d pid (jwt_id user) = Some pl
             \<and> \<not> list_ex (\<lambda>r. ps_playlist_id r = p_id pl \<and> ps_song_path r = path)
                   (playlist_songs d) \<longrightarrow>
            delete_api_playlists_songs e now tok pid path d
              = (message 200 (''Canci'' @ o_acute @ ''n eliminada''), d))"
  using assms
  by (auto simp: delete_api_playlists_songs_def guarded_def removeSong_def not_found_def
      message_def filter_id_conv list_ex_iff split: option.splits)

text \<open>
  Ana removes a path never added and a path that is there, both with success; Bob gets
  the 404 on Ana's playlist.
\<close>

theorem removeSong_success_witness:
  "delete_api_playlists_songs env0 1000 (Some ana_token) ''1'' ''never_added.mp3'' db0
     = (message 200 (''Canci'' @ o_acute @ ''n eliminada''), db0)
   \<and> fst (delete_api_playlists_songs env0 1000 (Some ana_token) ''1'' ''/musica/a.mp3'' db0)
     = message 200 (''Canci'' @ o_acute @ ''n eliminada'')
   \<and> playlist_songs (snd (delete_api_playlists_songs env0 1000 (Some ana_token) ''1''
        ''/musica/a.mp3'' db0)) = []
   \<and> fst (delete_api_playlists_songs env0 1000 (Some bob_token) ''1'' ''/musica/a.mp3'' db0)
     = not_found"
proof -
  have oa: "owned_playlist env0 db0 ''1'' 1 = Some road_trip"
    by (simp add: owned_playlist_def env0_def db0_def road_trip_def)
  have ob: "owned_playlist env0 db0 ''1'' 2 = None"
    by (simp add: owned_playlist_def env0_def db0_def road_trip_def)
  have absent: "\<not> list_ex (\<lambda>r. ps_playlist_id r = p_id road_trip
      \<and> ps_song_path r = ''never_added.mp3'') (playlist_songs db0)"
    by (simp add: db0_def a_mp3_def)
  have del: "playlist_songs (snd (delete_api_playlists_songs env0 1000 (Some ana_token) ''1''
        ''/musica/a.mp3'' db0)) = []"
    by (simp add: delete_api_playlists_songs_def guarded_def ana_auth removeSong_def oa)
       (simp add: db0_def a_mp3_def road_trip_def)
  show ?thesis
    using removeSong_success [OF ana_auth, of db0 "''1''" "''never_added.mp3''"]
      removeSong_success [OF ana_auth, of db0 "''1''" "''/musica/a.mp3''"]
      removeSong_success [OF bob_auth, of db0 "''1''" "''/musica/a.mp3''"]
      oa ob absent del
    by simp
qed

text \<open>Two songs of Ana's playlist, added as "b.mp3" and then "a.mp3", are listed sorted.\<close>

lemma listSongs_order:
  "fst (listSongs env0 ''1''
     \<lparr>jwt_id = 1, jwt_email = ''ana@x.com'', jwt_nombre = ''Ana'', jwt_iat = 0, jwt_exp = 604800\<rparr>
     (db0\<lparr>playlist_songs :=
        [\<lparr>ps_playlist_id = 1, ps_song_path = ''b.mp3'', ps_added_at = ''2025-01-01 00:00:00''\<rparr>,
         \<lparr>ps_playlist_id = 1, ps_song_path = ''a.mp3'', ps_added_at = ''2025-01-01 00:00:01''\<rparr>]\<rparr>))
   = \<lparr>status = 200, body = JObj [(''songs'', JArr [JStr ''a.mp3'', JStr ''b.mp3''])],
      cookie = NoCookie\<rparr>"
  by (simp add: listSongs_def owned_playlist_def env0_def db0_def road_trip_def)

subsection \<open>The constraints of the schema are kept\<close>

text \<open>
  The routes start from a database that satisfies the declared uniqueness constraints
  and keep them: a new rowid is larger than every id of its table, a duplicate email is
  refused, and a membership is inserted only when its pair is new.
\<close>

lemma fold_max_ge: "(seq::int) \<le> fold max ids seq"
proof (induction ids arbitrary: seq)
  case Nil
  show ?case by simp
next
  case (Cons x ids)
  have "seq \<le> max x seq" by simp
  also have "\<dots> \<le> fold max ids (max x seq)" by (rule Cons.IH)
  finally show ?case by simp
qed

lemma fold_max_mem: "(x::int) \<in> set ids \<Longrightarrow> x \<le> fold max ids seq"
proof (induction ids arbitrary: seq)
  case Nil
  then show ?case by simp
next
  case (Cons y ids)
  show ?case
  proof (cases "x = y")
    case True
    have "x \<le> max y seq" using True by simp
    also have "\<dots> \<le> fold max ids (max y seq)" by (rule fold_max_ge)
    finally show ?thesis by simp
  next
    case False
    with Cons show ?thesis by simp
  qed
qed

lemma next_rowid_fresh: "next_rowid seq ids = Some r \<Longrightarrow> r \<notin> set ids"
  using fold_max_mem [of r ids seq] by (auto simp: next_rowid_def split: if_splits)

lemma db_empty_constraints:
  "users_email_unique db_empty \<and> playlists_pk db_empty \<and> playlist_songs_pk db_empty"
  by (simp add: users_email_unique_def playlists_pk_def playlist_songs_pk_def db_empty_def)

lemma register_keeps_email_unique:
  assumes "users_email_unique d"
  shows "users_email_unique (snd (post_api_register e now nombre email password d))"
  using assms
  by (auto simp: post_api_register_def insert_user_def users_email_unique_def Let_def
      list_ex_iff split: option.splits if_splits)

lemma createPlaylist_keeps_pk:
  assumes "playlists_pk d"
  shows "playlists_pk (snd (createPlaylist e now nombre user d))"
  using assms next_rowid_fresh [of "playlists_seq d" "map p_id (playlists d)"]
  by (auto simp: createPlaylist_def insert_playlist_def playlists_pk_def Let_def
      split: option.splits if_splits)

lemma removeSong_keeps_pk:
  assumes "playlist_songs_pk d"
  shows "playlist_songs_pk (snd (removeSong e pid path user d))"
  using assms
  by (auto simp: removeSong_def playlist_songs_pk_def distinct_map_filter
      split: option.splits)

lemma count_key:
  "distinct (map f xs) \<Longrightarrow>
     length (filter (\<lambda>x. f x = k) xs) = (if list_ex (\<lambda>x. f x = k) xs then 1 else 0)"
proof (induction xs)
  case Nil
  then show ?case by simp
next
  case (Cons x xs)
  then show ?case by (auto simp: list_ex_iff image_iff)
qed

lemma insert_or_ignore_song_pk:
  assumes "playlist_songs_pk d" and "insert_or_ignore_song e now pid (Some s) d = Inr d'"
  shows "playlist_songs_pk d'"
  using assms
  by (auto simp: insert_or_ignore_song_def playlist_songs_pk_def list_ex_iff
      split: if_splits)

lemma insert_or_ignore_song_count:
  assumes "playlist_songs_pk d" and "insert_or_ignore_song e now pid (Some s) d = Inr d'"
  shows "length (filter (\<lambda>r. ps_playlist_id r = pid \<and> ps_song_path r = s) (playlist_songs d')) = 1"
proof -
  have pk: "distinct (map (\<lambda>r. (ps_playlist_id r, ps_song_path r)) (playlist_songs d'))"
    using insert_or_ignore_song_pk [OF assms] by (simp add: playlist_songs_pk_def)
  have ex: "list_ex (\<lambda>r. (ps_playlist_id r, ps_song_path r) = (pid, s)) (playlist_songs d')"
    using assms(2) by (auto simp: insert_or_ignore_song_def list_ex_iff split: if_splits)
  from count_key [OF pk, of "(pid, s)"] ex show ?thesis by simp
qed

lemma insert_or_ignore_song_again:
  assumes "insert_or_ignore_song e now pid (Some s) d = Inr d'"
  shows "insert_or_ignore_song e now' pid (Some s) d' = Inr d'"
  using assms
  by (auto simp: insert_or_ignore_song_def list_ex_iff split: if_splits)

lemma insert_or_ignore_song_playlists:
  assumes "insert_or_ignore_song e now pid sp d = Inr d'"
  shows "playlists d' = playlists d"
  using assms
  by (auto simp: insert_or_ignore_song_def split: if_splits option.splits)

lemma insert_or_ignore_song_Some:
  "\<exists>d'. insert_or_ignore_song e now pid (Some s) d = Inr d'"
  by (simp add: insert_or_ignore_song_def)

subsection \<open>Adding a song twice\<close>

text \<open>
  C3. On a database that satisfies the primary key of playlist_songs, two addSong
  requests of the owner for the same playlist and the same song path both answer 201;
  the second changes nothing, and after the first the table holds exactly one row for
  the pair.
\<close>

theorem addSong_idempotent:
  assumes pk: "playlist_songs_pk d"
    and a1: "authMiddleware e t1 tok1 = Inr u1"
    and a2: "authMiddleware e t2 tok2 = Inr u2"
    and same: "jwt_id u2 = jwt_id u1"
    and own: "owned_playlist e d idp (jwt_id u1) = Some pl"
  shows "fst (post_api_playlists_id_songs e t1 tok1 idp (Some s) d)
           = message 201 (''Canci'' @ o_acute @ ''n agregada'')
       \<and> post_api_playlists_id_songs e t2 tok2 idp (Some s)
             (snd (post_api_playlists_id_songs e t1 tok1 idp (Some s) d))
           = (message 201 (''Canci'' @ o_acute @ ''n agregada''),
              snd (post_api_playlists_id_songs e t1 tok1 idp (Some s) d))
       \<and> length (filter (\<lambda>r. ps_playlist_id r = p_id pl \<and> ps_song_path r = s)
             (playlist_songs (snd (post_api_playlists_id_songs e t1 tok1 idp (Some s) d)))) = 1"
proof -
  obtain d1 where ins: "insert_or_ignore_song e t1 (p_id pl) (Some s) d = Inr d1"
    using insert_or_ignore_song_Some by blast
  have first: "post_api_playlists_id_songs e t1 tok1 idp (Some s) d
      = (message 201 (''Canci'' @ o_acute @ ''n agregada''), d1)"
    by (simp add: post_api_playlists_id_songs_def guarded_def a1 addSong_def own ins)
  have own1: "owned_playlist e d1 idp (jwt_id u2) = Some pl"
    using own same insert_or_ignore_song_playlists [OF ins]
    by (simp add: owned_playlist_def split: option.splits)
  have second: "post_api_playlists_id_songs e t2 tok2 idp (Some s) d1
      = (message 201 (''Canci'' @ o_acute @ ''n agregada''), d1)"
    by (simp add: post_api_playlists_id_songs_def guarded_def a2 addSong_def own1
        insert_or_ignore_song_again [OF ins])
  from first second insert_or_ignore_song_count [OF pk ins] show ?thesis
    by simp
qed

text \<open>
  Ana adds "b.mp3" to her playlist twice: one new row, two rows in all.
\<close>

theorem addSong_idempotent_witness:
  "fst (post_api_playlists_id_songs env0 1000 (Some ana_token) ''1'' (Some ''b.mp3'') db0)
     = message 201 (''Canci'' @ o_acute @ ''n agregada'')
   \<and> post_api_playlists_id_songs env0 2000 (Some ana_token) ''1'' (Some ''b.mp3'')
        (snd (post_api_playlists_id_songs env0 1000 (Some ana_token) ''1'' (Some ''b.mp3'') db0))
     = (message 201 (''Canci'' @ o_acute @ ''n agregada''),
        snd (post_api_playlists_id_songs env0 1000 (Some ana_token) ''1'' (Some ''b.mp3'') db0))
   \<and> length (filter (\<lambda>r. ps_playlist_id r = 1 \<and> ps_song_path r = ''b.mp3'')
        (playlist_songs (snd (post_api_playlists_id_songs env0 1000 (Some ana_token) ''1''
           (Some ''b.mp3'') db0)))) = 1
   \<and> length (playlist_songs (snd (post_api_playlists_id_songs env0 1000 (Some ana_token) ''1''
           (Some ''b.mp3'') db0))) = 2"
proof -
  have pk: "playlist_songs_pk db0"
    by (simp add: playlist_songs_pk_def db0_def)
  have a2: "authMiddleware env0 2000 (Some ana_token) =
     Inr \<lparr>jwt_id = 1, jwt_email = ''ana@x.com'', jwt_nombre = ''Ana'',
          jwt_iat = 0, jwt_exp = 604800\<rparr>"
    by (simp add: authMiddleware_def env0_def ana_token_def jwt_sign_def jwt_verify_def
        JWT_EXPIRES_def)
  have own1: "owned_playlist env0 db0 ''1'' 1 = Some road_trip"
    by (simp add: owned_playlist_def env0_def db0_def road_trip_def)
  then have own: "owned_playlist env0 db0 ''1''
      (jwt_id \<lparr>jwt_id = 1, jwt_email = ''ana@x.com'', jwt_nombre = ''Ana'',
          jwt_iat = 0, jwt_exp = 604800\<rparr>) = Some road_trip"
    by simp
  have id1: "p_id road_trip = 1" by (simp add: road_trip_def)
  have ins: "insert_or_ignore_song env0 1000 1 (Some ''b.mp3'') db0
      = Inr (db0\<lparr>playlist_songs :=
          [a_mp3, \<lparr>ps_playlist_id = 1, ps_song_path = ''b.mp3'',
                    ps_added_at = ''2025-01-01 00:00:00''\<rparr>]\<rparr>)"
    by (simp add: insert_or_ignore_song_def db0_def a_mp3_def env0_def)
  have two: "length (playlist_songs (snd (post_api_playlists_id_songs env0 1000 (Some ana_token)
      ''1'' (Some ''b.mp3'') db0))) = 2"
    by (simp add: post_api_playlists_id_songs_def guarded_def ana_auth addSong_def own1
        id1 ins)
  show ?thesis
    using addSong_idempotent [OF pk ana_auth a2 _ own, of "''b.mp3''"] two id1
    by simp
qed

subsection \<open>Listing playlists\<close>

lemma left_join_Cons:
  "left_join (p # ps) ss =
     (let m = filter (\<lambda>r. ps_playlist_id r = p_id p) ss
      in if m = [] then [(p, None)] else map (\<lambda>r. (p, Some r)) m) @ left_join ps ss"
  by (simp add: left_join_def)

lemma left_join_fst: "x \<in> set (left_join ps ss) \<Longrightarrow> fst x \<in> set ps"
  by (auto simp: left_join_def Let_def split: if_splits)

lemma group_by_id_block:
  assumes "blk \<noteq> []"
    and "\<forall>x\<in>set blk. fst x = p"
    and "\<forall>x\<in>set rest. p_id (fst x) \<noteq> p_id p"
  shows "group_by_id (blk @ rest) = (p, count_song_path blk) # group_by_id rest"
proof (cases blk)
  case Nil
  with assms(1) show ?thesis by simp
next
  case (Cons b bs)
  have b: "fst b = p" and bs: "\<forall>x\<in>set bs. fst x = p"
    using assms(2) Cons by auto
  have same: "filter (\<lambda>x. p_id (fst x) = p_id p) bs = bs"
    "filter (\<lambda>x. p_id (fst x) = p_id p) rest = []"
    using bs assms(3) by (simp_all add: filter_id_conv filter_empty_conv)
  have other: "filter (\<lambda>x. p_id (fst x) \<noteq> p_id p) bs = []"
    "filter (\<lambda>x. p_id (fst x) \<noteq> p_id p) rest = rest"
    using bs assms(3) by (simp_all add: filter_id_conv filter_empty_conv)
  show ?thesis
    by (simp add: Cons b same other)
qed

lemma count_song_path_block:
  "count_song_path
     (let m = filter (\<lambda>r. ps_playlist_id r = p_id p) ss
      in if m = [] then [(p, None)] else map (\<lambda>r. (p, Some r)) m)
   = length (filter (\<lambda>r. ps_playlist_id r = p_id p) ss)"
  by (simp add: count_song_path_def Let_def)

lemma group_by_id_left_join:
  assumes "distinct (map p_id ps)"
  shows "group_by_id (filter (\<lambda>jr. p_user_id (fst jr) = uid) (left_join ps ss))
       = map (\<lambda>p. (p, length (filter (\<lambda>r. ps_playlist_id r = p_id p) ss)))
           (filter (\<lambda>p. p_user_id p = uid) ps)"
  using assms
proof (induction ps)
  case Nil
  then show ?case by (simp add: left_join_def)
next
  case (Cons p ps)
  let ?blk = "let m = filter (\<lambda>r. ps_playlist_id r = p_id p) ss
      in if m = [] then [(p, None)] else map (\<lambda>r. (p, Some r)) m"
  let ?rest = "filter (\<lambda>jr. p_user_id (fst jr) = uid) (left_join ps ss)"
  have blk_ne: "?blk \<noteq> []" by (simp add: Let_def)
  have blk_p: "\<forall>x\<in>set ?blk. fst x = p" by (auto simp: Let_def)
  have rest_ids: "\<forall>x\<in>set ?rest. p_id (fst x) \<noteq> p_id p"
  proof
    fix x
    assume "x \<in> set ?rest"
    then have "fst x \<in> set ps"
      using left_join_fst [of x ps ss] by simp
    with Cons.prems show "p_id (fst x) \<noteq> p_id p"
      by (auto simp: image_iff)
  qed
  have IH: "group_by_id ?rest
      = map (\<lambda>p. (p, length (filter (\<lambda>r. ps_playlist_id r = p_id p) ss)))
          (filter (\<lambda>p. p_user_id p = uid) ps)"
    using Cons by simp
  show ?case
  proof (cases "p_user_id p = uid")
    case True
    have "filter (\<lambda>jr. p_user_id (fst jr) = uid) ?blk = ?blk"
      using blk_p True by (simp add: filter_id_conv)
    then have "filter (\<lambda>jr. p_user_id (fst jr) = uid) (left_join (p # ps) ss) = ?blk @ ?rest"
      by (simp add: left_join_Cons)
    then show ?thesis
      using group_by_id_block [OF blk_ne blk_p rest_ids] IH True
      by (simp add: count_song_path_block)
  next
    case False
    have "filter (\<lambda>jr. p_user_id (fst jr) = uid) ?blk = []"
      using blk_p False by (simp add: filter_empty_conv)
    then have "filter (\<lambda>jr. p_user_id (fst jr) = uid) (left_join (p # ps) ss) = ?rest"
      by (simp add: left_join_Cons)
    then show ?thesis
      using IH False by simp
  qed
qed

text \<open>
  C9, as the code has it. On a database that satisfies the primary key of playlists,
  listPlaylists answers 200 with one object for each playlist of the caller, in the
  shape \<^verbatim>\<open>{playlists: [{id, nombre, user_id, created_at, song_count}]}\<close>: the columns
  of the playlist row and \<^verbatim>\<open>song_count\<close>, the number of playlist_songs rows of that
  playlist in the database the request reads.
\<close>

theorem listPlaylists_song_count:
  assumes "playlists_pk d" and "authMiddleware e now tok = Inr user"
  shows "get_api_playlists e now tok d =
     (\<lparr>status = 200,
       body = JObj [(''playlists'',
         JArr (map (\<lambda>p. JObj [(''id'', JNum (p_id p)),
                               (''nombre'', JStr (p_nombre p)),
                               (''user_id'', JNum (p_user_id p)),
                               (''created_at'', JStr (p_created_at p)),
                               (''song_count'',
                                  JNum (int (length (filter (\<lambda>r. ps_playlist_id r = p_id p)
                                    (playlist_songs d)))))])
                (filter (\<lambda>p. p_user_id p = jwt_id user) (playlists d))))],
       cookie = NoCookie\<rparr>, d)"
  using assms
  by (simp add: get_api_playlists_def guarded_def listPlaylists_def playlists_pk_def
      group_by_id_left_join playlist_json_def comp_def)

text \<open>
  Ana's one playlist with its one song.
\<close>

theorem listPlaylists_song_count_witness:
  "get_api_playlists env0 1000 (Some ana_token) db0 =
     (\<lparr>status = 200,
       body = JObj [(''playlists'',
         JArr [JObj [(''id'', JNum 1),
                     (''nombre'', JStr ''Road Trip''),
                     (''user_id'', JNum 1),
                     (''created_at'', JStr ''2025-01-01 00:00:00''),
                     (''song_count'', JNum 1)]])],
       cookie = NoCookie\<rparr>, db0)"
proof -
  have pk: "playlists_pk db0"
    by (simp add: playlists_pk_def db0_def)
  show ?thesis
    using listPlaylists_song_count [OF pk ana_auth]
    by (simp add: db0_def road_trip_def a_mp3_def)
qed

text \<open>
  C9 as stated fails: the objects have no field \<^verbatim>\<open>songCount\<close>; the count is in
  \<^verbatim>\<open>song_count\<close>, next to \<^verbatim>\<open>user_id\<close> and \<^verbatim>\<open>created_at\<close>.
\<close>

theorem listPlaylists_shape_counterexample:
  "body (fst (get_api_playlists env0 1000 (Some ana_token) db0))
     = JObj [(''playlists'',
         JArr [JObj [(''id'', JNum 1),
                     (''nombre'', JStr ''Road Trip''),
                     (''user_id'', JNum 1),
                     (''created_at'', JStr ''2025-01-01 00:00:00''),
                     (''song_count'', JNum 1)]])]
   \<and> body (fst (get_api_playlists env0 1000 (Some ana_token) db0))
     \<noteq> JObj [(''playlists'',
         JArr [JObj [(''id'', JNum 1),
                     (''nombre'', JStr ''Road Trip''),
                     (''songCount'', JNum 1)]])]"
  by (simp add: get_api_playlists_def guarded_def ana_auth listPlaylists_def left_join_def
      db0_def road_trip_def a_mp3_def playlist_json_def count_song_path_def)

end
